theory Spec2Isabelle
  imports Complex_Main
begin

section \<open>JavaScript values\<close>

subsection \<open>Numbers\<close>

text \<open>
  A JavaScript number is a finite value, one of the two infinities, or NaN.
  Finite values are kept exact (a rational): the rounding of binary64 to 53 bits
  and overflow to an infinity are not modelled, and the negative zero is
  identified with zero. Every statement below is about this exact arithmetic.
\<close>

datatype jsnum = Fin rat | PInf | NInf | NaN

fun isFinite :: "jsnum \<Rightarrow> bool" where
  "isFinite (Fin x) = True"
| "isFinite PInf = False"
| "isFinite NInf = False"
| "isFinite NaN = False"

text \<open>The relational operators: every comparison with NaN is false.\<close>

fun js_lt :: "jsnum \<Rightarrow> jsnum \<Rightarrow> bool" where
  "js_lt (Fin x) (Fin y) = (x < y)"
| "js_lt (Fin x) PInf = True"
| "js_lt NInf (Fin y) = True"
| "js_lt NInf PInf = True"
| "js_lt a b = False"

fun js_eq :: "jsnum \<Rightarrow> jsnum \<Rightarrow> bool" where
  "js_eq NaN b = False"
| "js_eq a NaN = False"
| "js_eq a b = (a = b)"

definition js_le :: "jsnum \<Rightarrow> jsnum \<Rightarrow> bool" where
  "js_le a b = (js_lt a b \<or> js_eq a b)"

definition js_gt :: "jsnum \<Rightarrow> jsnum \<Rightarrow> bool" where
  "js_gt a b = js_lt b a"

definition js_ge :: "jsnum \<Rightarrow> jsnum \<Rightarrow> bool" where
  "js_ge a b = js_le b a"

text \<open>Arithmetic. The sign of an infinite product or quotient follows the operands.\<close>

fun js_add :: "jsnum \<Rightarrow> jsnum \<Rightarrow> jsnum" where
  "js_add (Fin x) (Fin y) = Fin (x + y)"
| "js_add NaN b = NaN"
| "js_add a NaN = NaN"
| "js_add PInf NInf = NaN"
| "js_add NInf PInf = NaN"
| "js_add PInf b = PInf"
| "js_add NInf b = NInf"
| "js_add a PInf = PInf"
| "js_add a NInf = NInf"

definition signed_inf :: "bool \<Rightarrow> jsnum" where
  "signed_inf negative = (if negative then NInf else PInf)"

fun js_mul :: "jsnum \<Rightarrow> jsnum \<Rightarrow> jsnum" where
  "js_mul (Fin x) (Fin y) = Fin (x * y)"
| "js_mul NaN b = NaN"
| "js_mul a NaN = NaN"
| "js_mul (Fin x) PInf = (if x = 0 then NaN else signed_inf (x < 0))"
| "js_mul (Fin x) NInf = (if x = 0 then NaN else signed_inf (0 < x))"
| "js_mul PInf (Fin y) = (if y = 0 then NaN else signed_inf (y < 0))"
| "js_mul NInf (Fin y) = (if y = 0 then NaN else signed_inf (0 < y))"
| "js_mul PInf PInf = PInf"
| "js_mul PInf NInf = NInf"
| "js_mul NInf PInf = NInf"
| "js_mul NInf NInf = PInf"

fun js_div :: "jsnum \<Rightarrow> jsnum \<Rightarrow> jsnum" where
  "js_div (Fin x) (Fin y) =
     (if y = 0 then (if x = 0 then NaN else signed_inf (x < 0)) else Fin (x / y))"
| "js_div NaN b = NaN"
| "js_div a NaN = NaN"
| "js_div (Fin x) PInf = Fin 0"
| "js_div (Fin x) NInf = Fin 0"
| "js_div PInf (Fin y) = signed_inf (y < 0)"
| "js_div NInf (Fin y) = signed_inf (0 \<le> y)"
| "js_div PInf b = NaN"
| "js_div NInf b = NaN"

text \<open>The remainder operator \<open>%\<close>: the quotient is truncated towards zero, so the
  result has the sign of the dividend.\<close>

definition js_trunc :: "rat \<Rightarrow> int" where
  "js_trunc q = (if 0 \<le> q then \<lfloor>q\<rfloor> else \<lceil>q\<rceil>)"

fun js_mod :: "jsnum \<Rightarrow> jsnum \<Rightarrow> jsnum" where
  "js_mod (Fin x) (Fin y) =
     (if y = 0 then NaN else Fin (x - y * of_int (js_trunc (x / y))))"
| "js_mod (Fin x) PInf = Fin x"
| "js_mod (Fin x) NInf = Fin x"
| "js_mod a b = NaN"

text \<open>\<open>Math.round\<close> rounds to the nearest integer, a tie going up;
  \<open>Math.max\<close> and \<open>Math.min\<close> answer NaN as soon as one argument is NaN.\<close>

fun Math_round :: "jsnum \<Rightarrow> jsnum" where
  "Math_round (Fin x) = Fin (of_int \<lfloor>x + 1 / 2\<rfloor>)"
| "Math_round a = a"

definition Math_max :: "jsnum \<Rightarrow> jsnum \<Rightarrow> jsnum" where
  "Math_max a b = (if a = NaN \<or> b = NaN then NaN else if js_lt a b then b else a)"

definition Math_min :: "jsnum \<Rightarrow> jsnum \<Rightarrow> jsnum" where
  "Math_min a b = (if a = NaN \<or> b = NaN then NaN else if js_lt b a then b else a)"

subsection \<open>Primitive values and coercions\<close>

text \<open>
  The values that may sit where the source documents a number or an optional
  number. \<open>ToNumber\<close> and \<open>ToBoolean\<close> are the coercions of the language; strings
  and objects are left out of this type because their coercion to a number
  parses text or calls user code.
\<close>

datatype jsprim = Undefined | Null | Boolean bool | Number jsnum

fun ToNumber :: "jsprim \<Rightarrow> jsnum" where
  "ToNumber Undefined = NaN"
| "ToNumber Null = Fin 0"
| "ToNumber (Boolean b) = (if b then Fin 1 else Fin 0)"
| "ToNumber (Number n) = n"

fun ToBoolean :: "jsprim \<Rightarrow> bool" where
  "ToBoolean Undefined = False"
| "ToBoolean Null = False"
| "ToBoolean (Boolean b) = b"
| "ToBoolean (Number n) = (n \<noteq> NaN \<and> n \<noteq> Fin 0)"

text \<open>\<open>a || b\<close> is \<open>a\<close> when \<open>a\<close> is truthy and \<open>b\<close> otherwise.\<close>

definition js_or :: "jsprim \<Rightarrow> jsprim \<Rightarrow> jsprim" where
  "js_or a b = (if ToBoolean a then a else b)"

text \<open>Any value, as far as \<open>typeof\<close> tells values apart.\<close>

datatype jsval = Prim jsprim | Str string | Function | Object

fun typeof :: "jsval \<Rightarrow> string" where
  "typeof (Prim Undefined) = ''undefined''"
| "typeof (Prim Null) = ''object''"
| "typeof (Prim (Boolean b)) = ''boolean''"
| "typeof (Prim (Number n)) = ''number''"
| "typeof (Str s) = ''string''"
| "typeof Function = ''function''"
| "typeof Object = ''object''"

section \<open>The WaveSurfer class (src/wavesurfer.js)\<close>

subsection \<open>Parameters, collaborators and the instance\<close>

text \<open>
  The parameters the modelled methods read. \<open>container\<close> is the element the
  constructor resolves (\<open>None\<close> when the selector matches nothing or the parameter is
  missing); \<open>backgroundColor\<close> is \<open>None\<close> for \<open>null\<close>.
\<close>

datatype element = Element

record params =
  backgroundColor :: "string option"
  container :: "element option"
  fillParent :: bool
  maxCanvasWidth :: jsprim
  minPxPerSec :: jsnum
  partialRender :: bool
  pixelRatio :: jsnum
  renderer :: jsval
  rtl :: bool
  scrollParent :: bool
  vertical :: bool

text \<open>The object handed to the constructor: a key that is absent is \<open>None\<close>.\<close>

record options =
  opt_backgroundColor :: "string option option"
  opt_container :: "element option option"
  opt_fillParent :: "bool option"
  opt_maxCanvasWidth :: "jsprim option"
  opt_minPxPerSec :: "jsnum option"
  opt_partialRender :: "bool option"
  opt_pixelRatio :: "jsnum option"
  opt_renderer :: "jsval option"
  opt_rtl :: "bool option"
  opt_scrollParent :: "bool option"
  opt_vertical :: "bool option"

text \<open>\<open>defaultParams\<close>; the default pixel ratio is the one of the host's window, and
  the default renderer is the class \<open>MultiCanvas\<close>, a function.\<close>

definition defaultParams :: "jsnum \<Rightarrow> params" where
  "defaultParams devicePixelRatio =
     \<lparr> backgroundColor = None,
       container = None,
       fillParent = True,
       maxCanvasWidth = Number (Fin 4000),
       minPxPerSec = Fin 20,
       partialRender = False,
       pixelRatio = devicePixelRatio,
       renderer = Function,
       rtl = False,
       scrollParent = False,
       vertical = False \<rparr>"

text \<open>\<open>Object.assign({}, this.defaultParams, params)\<close>: a key of the argument wins.\<close>

definition assign :: "params \<Rightarrow> options \<Rightarrow> params" where
  "assign d p =
     \<lparr> backgroundColor = (case opt_backgroundColor p of None \<Rightarrow> backgroundColor d | Some v \<Rightarrow> v),
       container = (case opt_container p of None \<Rightarrow> container d | Some v \<Rightarrow> v),
       fillParent = (case opt_fillParent p of None \<Rightarrow> fillParent d | Some v \<Rightarrow> v),
       maxCanvasWidth = (case opt_maxCanvasWidth p of None \<Rightarrow> maxCanvasWidth d | Some v \<Rightarrow> v),
       minPxPerSec = (case opt_minPxPerSec p of None \<Rightarrow> minPxPerSec d | Some v \<Rightarrow> v),
       partialRender = (case opt_partialRender p of None \<Rightarrow> partialRender d | Some v \<Rightarrow> v),
       pixelRatio = (case opt_pixelRatio p of None \<Rightarrow> pixelRatio d | Some v \<Rightarrow> v),
       renderer = (case opt_renderer p of None \<Rightarrow> renderer d | Some v \<Rightarrow> v),
       rtl = (case opt_rtl p of None \<Rightarrow> rtl d | Some v \<Rightarrow> v),
       scrollParent = (case opt_scrollParent p of None \<Rightarrow> scrollParent d | Some v \<Rightarrow> v),
       vertical = (case opt_vertical p of None \<Rightarrow> vertical d | Some v \<Rightarrow> v) \<rparr>"

text \<open>
  The peaks handed to \<open>load\<close>: one sequence of samples, one sequence per channel, or
  nothing (\<open>undefined\<close> or \<open>null\<close>).
\<close>

datatype peaks = Missing | Samples "jsnum list" | Channels "jsnum list list"


text \<open>
  The renderer (\<open>./drawer.multicanvas\<close>) and the observer (\<open>./util\<close>) are not part of
  this file. The drawer is the answer of its one query, \<open>getWidth()\<close>, the width of
  the host element; every call made to it, every event fired and every other
  effect on the outside is appended to the trace of the instance, in order.
  Listeners are not run.
\<close>

record drawer =
  getWidth :: jsnum

datatype peaks_arg = Stored peaks | LengthOnly jsnum

datatype action =
    FireEvent string
  | ConsoleLog string
  | Style string
  | NewDrawer
  | DrawerInit
  | DrawerProgress jsnum
  | DrawerRecenter jsnum
  | DrawerSetWidth jsnum
  | DrawerDrawPeaks peaks_arg jsnum jsprim jsprim

datatype error = Error string | TypeError

text \<open>
  The instance. The peak cache class (\<open>./peakcache\<close>) is not part of this file
  either: its state is the type parameter \<open>'c\<close>, and its constructor and its method
  \<open>addRangeToPeakCache\<close> are arguments of the methods that use them. The fields
  \<open>peaks\<close>, \<open>duration\<close>, \<open>curPosition\<close> and \<open>peakMax\<close> are not set by the constructor,
  so they start \<open>undefined\<close>.
\<close>

record 'c wavesurfer =
  params :: params
  drawer :: "drawer option"
  peakCache :: "'c option"
  peaks :: peaks
  duration :: jsprim
  curPosition :: jsprim
  peakMax :: jsprim
  isReady :: bool
  trace :: "action list"

text \<open>
  A method returns the instance it leaves behind together with the error it threw,
  if any: what was assigned before a \<open>throw\<close> stays assigned.
\<close>

type_synonym 'c outcome = "error option \<times> 'c wavesurfer"

definition andThen :: "'c outcome \<Rightarrow> ('c wavesurfer \<Rightarrow> 'c outcome) \<Rightarrow> 'c outcome" where
  "andThen r f = (case r of (None, s) \<Rightarrow> f s | (Some e, s) \<Rightarrow> (Some e, s))"

definition emit :: "action \<Rightarrow> 'c wavesurfer \<Rightarrow> 'c wavesurfer" where
  "emit a s = s\<lparr>trace := trace s @ [a]\<rparr>"

definition fireEvent :: "string \<Rightarrow> 'c wavesurfer \<Rightarrow> 'c wavesurfer" where
  "fireEvent name s = emit (FireEvent name) s"

text \<open>A method call on \<open>this.drawer\<close>: a TypeError while the drawer is still \<open>null\<close>.\<close>

definition onDrawer :: "(drawer \<Rightarrow> action) \<Rightarrow> 'c wavesurfer \<Rightarrow> 'c outcome" where
  "onDrawer call s =
     (case drawer s of
        None \<Rightarrow> (Some TypeError, s)
      | Some d \<Rightarrow> (None, emit (call d) s))"

subsection \<open>Construction and initialisation\<close>

definition setBackgroundColor :: "string \<Rightarrow> 'c wavesurfer \<Rightarrow> 'c wavesurfer" where
  "setBackgroundColor color s =
     emit (Style ''background'') (s\<lparr>params := (params s)\<lparr>backgroundColor := Some color\<rparr>\<rparr>)"

text \<open>
  The constructor. Its result carries the instance as far as it was built when an
  error was thrown. The plugin list, the resize listener and the fields no modelled
  method reads are left out.
\<close>

definition WaveSurfer :: "jsnum \<Rightarrow> options \<Rightarrow> 'c outcome" where
  "WaveSurfer devicePixelRatio p =
     (let s = \<lparr> params = assign (defaultParams devicePixelRatio) p,
                 drawer = None, peakCache = None, peaks = Missing,
                 duration = Undefined, curPosition = Undefined, peakMax = Undefined,
                 isReady = False, trace = [] \<rparr>
      in if container (params s) = None
           then (Some (Error ''Container element not found''), s)
         else if js_le (ToNumber (maxCanvasWidth (params s))) (Fin 1)
           then (Some (Error ''maxCanvasWidth must be greater than 1''), s)
         else if js_eq (js_mod (ToNumber (maxCanvasWidth (params s))) (Fin 2)) (Fin 1)
           then (Some (Error ''maxCanvasWidth must be an even number''), s)
         else
           let s = (if rtl (params s)
                    then (if vertical (params s)
                          then emit (Style ''transform: rotateX(180deg)'') s
                          else emit (Style ''transform: rotateY(180deg)'') s)
                    else s);
               s = (case backgroundColor (params s) of
                      None \<Rightarrow> s
                    | Some color \<Rightarrow> if color = [] then s else setBackgroundColor color s);
               s = s\<lparr>drawer := None, peakCache := None\<rparr>
           in if typeof (renderer (params s)) \<noteq> ''function''
                then (Some (Error ''Renderer parameter is invalid''), s)
              else (None, s\<lparr>isReady := False\<rparr>))"

text \<open>\<open>registerPlugins\<close> with no plugin to register.\<close>

definition registerPlugins :: "'c wavesurfer \<Rightarrow> 'c wavesurfer" where
  "registerPlugins s = fireEvent ''plugins-registered'' s"

text \<open>\<open>createDrawer\<close>: \<open>d\<close> is the object \<open>new this.Drawer(container, params)\<close> builds.\<close>

definition createDrawer :: "drawer \<Rightarrow> 'c wavesurfer \<Rightarrow> 'c wavesurfer" where
  "createDrawer d s =
     fireEvent ''drawer-created'' (emit DrawerInit (emit NewDrawer (s\<lparr>drawer := Some d\<rparr>)))"

text \<open>\<open>createPeakCache\<close>: \<open>new_cache\<close> is the object \<open>new PeakCache()\<close> builds.\<close>

definition createPeakCache :: "'c \<Rightarrow> 'c wavesurfer \<Rightarrow> 'c wavesurfer" where
  "createPeakCache new_cache s =
     (if partialRender (params s) then s\<lparr>peakCache := Some new_cache\<rparr> else s)"

definition init :: "'c \<Rightarrow> drawer \<Rightarrow> 'c wavesurfer \<Rightarrow> 'c wavesurfer" where
  "init new_cache d s = createPeakCache new_cache (createDrawer d (registerPlugins s))"

definition create :: "jsnum \<Rightarrow> options \<Rightarrow> 'c \<Rightarrow> drawer \<Rightarrow> 'c outcome" where
  "create devicePixelRatio p new_cache d =
     andThen (WaveSurfer devicePixelRatio p) (\<lambda>s. (None, init new_cache d s))"

subsection \<open>Position and seeking\<close>

definition getDuration :: "'c wavesurfer \<Rightarrow> jsprim" where
  "getDuration s = duration s"

definition getCurrentTime :: "'c wavesurfer \<Rightarrow> jsprim" where
  "getCurrentTime s = curPosition s"

text \<open>\<open>return this.getCurrentTime() / this.duration || 0\<close>\<close>

definition getPlayedPercents :: "'c wavesurfer \<Rightarrow> jsprim" where
  "getPlayedPercents s =
     js_or (Number (js_div (ToNumber (getCurrentTime s)) (ToNumber (duration s))))
           (Number (Fin 0))"


definition seekTo_message :: string where
  "seekTo_message =
     ''Error calling wavesurfer.seekTo, parameter must be a number between 0 and 1!''"

text \<open>
  \<open>seekTo\<close>. The test \<open>typeof progress !== 'number'\<close> comes first, so the three
  numeric tests only ever see a number.
\<close>

definition seekTo :: "jsval \<Rightarrow> 'c wavesurfer \<Rightarrow> 'c outcome" where
  "seekTo progress s =
     (case progress of
        Prim (Number p) \<Rightarrow>
          if \<not> isFinite p \<or> js_lt p (Fin 0) \<or> js_gt p (Fin 1)
          then (Some (Error seekTo_message), s)
          else
            let s = fireEvent ''interaction'' s;
                oldScrollParent = scrollParent (params s);
                s = s\<lparr>params := (params s)\<lparr>scrollParent := False\<rparr>\<rparr>;
                s = s\<lparr>curPosition := Number (js_mul p (ToNumber (getDuration s)))\<rparr>
            in andThen (onDrawer (\<lambda>d. DrawerProgress p) s)
                 (\<lambda>s. (None, fireEvent ''seek''
                                (s\<lparr>params := (params s)\<lparr>scrollParent := oldScrollParent\<rparr>\<rparr>)))
      | _ \<Rightarrow> (Some (Error seekTo_message), s))"

definition seekAndCenter :: "jsnum \<Rightarrow> 'c wavesurfer \<Rightarrow> 'c outcome" where
  "seekAndCenter progress s =
     andThen (seekTo (Prim (Number progress)) s) (onDrawer (\<lambda>d. DrawerRecenter progress))"

text \<open>
  \<open>skip\<close>. The offset is a number or \<open>undefined\<close> (any primitive but a string), so
  the \<open>+\<close> is the addition of numbers. \<open>skip_position\<close> is the local \<open>position\<close>
  after its second assignment, \<open>skip_fraction\<close> the argument \<open>position / duration\<close>
  of \<open>seekAndCenter\<close>.
\<close>

definition skip_position :: "jsprim \<Rightarrow> 'c wavesurfer \<Rightarrow> jsnum" where
  "skip_position offset s =
     (let duration = js_or (duration s) (Number (Fin 1));
          position = js_or (getCurrentTime s) (Number (Fin 0))
      in Math_max (Fin 0)
           (Math_min (ToNumber duration)
              (js_add (ToNumber position) (ToNumber (js_or offset (Number (Fin 0)))))))"

definition skip_fraction :: "jsprim \<Rightarrow> 'c wavesurfer \<Rightarrow> jsnum" where
  "skip_fraction offset s =
     (let duration = js_or (duration s) (Number (Fin 1));
          position = skip_position offset s
      in js_div position (ToNumber duration))"

definition skip :: "jsprim \<Rightarrow> 'c wavesurfer \<Rightarrow> 'c outcome" where
  "skip offset s = seekAndCenter (skip_fraction offset s) s"


subsection \<open>Drawing and loading\<close>

text \<open>The \<open>for\<close> loop of \<open>drawBuffer\<close>: one \<open>drawPeaks\<close> per range, first to last.\<close>

primrec drawRanges :: "jsnum \<Rightarrow> (jsnum \<times> jsnum) list \<Rightarrow> 'c wavesurfer \<Rightarrow> 'c outcome" where
  "drawRanges width [] s = (None, s)"
| "drawRanges width (r # rs) s =
     andThen
       (onDrawer (\<lambda>d. DrawerDrawPeaks (Stored (peaks s)) width (Number (fst r)) (Number (snd r))) s)
       (drawRanges width rs)"

definition nominalWidth :: "'c wavesurfer \<Rightarrow> jsnum" where
  "nominalWidth s =
     Math_round (js_mul (js_mul (ToNumber (duration s)) (minPxPerSec (params s)))
                        (pixelRatio (params s)))"

text \<open>
  \<open>drawBuffer\<close>; \<open>addRangeToPeakCache c width start end\<close> stands for the method of
  the peak cache \<open>c\<close>, answering the new ranges and the cache it leaves.
\<close>

definition drawBuffer ::
  "('c \<Rightarrow> jsnum \<Rightarrow> jsnum \<Rightarrow> jsnum \<Rightarrow> (jsnum \<times> jsnum) list \<times> 'c) \<Rightarrow> 'c wavesurfer \<Rightarrow> 'c outcome"
where
  "drawBuffer addRangeToPeakCache s =
     (case drawer s of
        None \<Rightarrow> (Some TypeError, s)
      | Some d \<Rightarrow>
          let parentWidth = getWidth d;
              width = nominalWidth s;
              start = Fin 0;
              end = Math_max (js_add start parentWidth) width;
              (width, start, end) =
                 (if fillParent (params s) \<and>
                     (\<not> scrollParent (params s) \<or> js_lt (nominalWidth s) parentWidth)
                  then (parentWidth, Fin 0, parentWidth)
                  else (width, start, end))
          in andThen
               (if partialRender (params s)
                then (case peakCache s of
                        None \<Rightarrow> (Some TypeError, s)
                      | Some c \<Rightarrow>
                          let (newRanges, c') = addRangeToPeakCache c width start end
                          in drawRanges width newRanges (s\<lparr>peakCache := Some c'\<rparr>))
                else onDrawer
                       (\<lambda>d. DrawerDrawPeaks (Stored (peaks s)) width (Number start) (Number end)) s)
               (\<lambda>s. (None, fireEvent ''redraw'' s)))"



section \<open>The range cache (./peakcache)\<close>

text \<open>
  Modelled from the spec: the class \<open>PeakCache\<close> of \<open>./peakcache\<close>, which
  \<open>wavesurfer.js\<close> imports and whose source is missing. The definitions follow
  section 4.1 of the specification: the painted ranges are kept sorted and
  disjoint, \<open>[start, end)\<close> half-open, together with the width recorded on the
  previous call (none before the first call). Widths and bounds are numbers of the
  language, compared with its operators.
\<close>

record RangeCache =
  painted :: "(jsnum \<times> jsnum) list"
  recordedWidth :: "jsnum option"

text \<open>Modelled from the spec: the cache of \<open>new PeakCache()\<close>, nothing painted and
  no width recorded.\<close>

definition newRangeCache :: RangeCache where
  "newRangeCache = \<lparr> painted = [], recordedWidth = None \<rparr>"

text \<open>Modelled from the spec: \<open>totalWidth\<close> differs from the width recorded on the
  previous call.\<close>

definition widthDiffers :: "jsnum option \<Rightarrow> jsnum \<Rightarrow> bool" where
  "widthDiffers recorded totalWidth =
     (case recorded of None \<Rightarrow> True | Some w \<Rightarrow> \<not> js_eq w totalWidth)"

text \<open>Modelled from the spec: the gaps between \<open>[start, end)\<close> and the pre-existing
  coverage, scanning the sorted entries from the left.\<close>

fun gaps :: "jsnum \<Rightarrow> jsnum \<Rightarrow> (jsnum \<times> jsnum) list \<Rightarrow> (jsnum \<times> jsnum) list" where
  "gaps start end [] = (if js_lt start end then [(start, end)] else [])"
| "gaps start end ((a, b) # rest) =
     (if js_le b start then gaps start end rest
      else if js_le end a then (if js_lt start end then [(start, end)] else [])
      else (if js_lt start a then [(start, a)] else []) @
           (if js_lt b end then gaps b end rest else []))"

text \<open>Modelled from the spec: the merge rule. An entry with
  \<open>existing.start <= end && existing.end >= start\<close> is absorbed into the widened
  entry; the others stay where they are.\<close>

fun absorb :: "jsnum \<Rightarrow> jsnum \<Rightarrow> (jsnum \<times> jsnum) list \<Rightarrow> (jsnum \<times> jsnum) list" where
  "absorb start end [] = [(start, end)]"
| "absorb start end ((a, b) # rest) =
     (if js_le a end \<and> js_ge b start then absorb (Math_min start a) (Math_max end b) rest
      else if js_lt b start then (a, b) # absorb start end rest
      else (start, end) # (a, b) # rest)"

text \<open>Modelled from the spec: \<open>addRange(totalWidth, start, end)\<close>. A width that
  differs discards the painted set first; a degenerate range answers nothing and
  paints nothing; otherwise the gaps are computed before the merge.\<close>

definition addRange ::
  "RangeCache \<Rightarrow> jsnum \<Rightarrow> jsnum \<Rightarrow> jsnum \<Rightarrow> (jsnum \<times> jsnum) list \<times> RangeCache"
where
  "addRange c totalWidth start end =
     (let c = (if widthDiffers (recordedWidth c) totalWidth
               then \<lparr> painted = [], recordedWidth = Some totalWidth \<rparr>
               else c)
      in if js_eq start end then ([], c)
         else (gaps start end (painted c), c\<lparr>painted := absorb start end (painted c)\<rparr>))"

section \<open>Notions of the specification, and sample instances\<close>

text \<open>A finite number between 0 and 1 inclusive.\<close>

fun betweenZeroAndOne :: "jsval \<Rightarrow> bool" where
  "betweenZeroAndOne (Prim (Number (Fin x))) = (0 \<le> x \<and> x \<le> 1)"
| "betweenZeroAndOne v = False"


text \<open>
  The width and the range \<open>[start, end)\<close> of a draw as the specification words
  them: the nominal width is the rounded product of duration, pixels per second
  and pixel ratio; with \<open>fillParent\<close> set and either \<open>scrollParent\<close> unset or the
  nominal width below the parent's, everything collapses to the parent's width.
\<close>

definition requestedWindow :: "params \<Rightarrow> jsprim \<Rightarrow> jsnum \<Rightarrow> jsnum \<times> jsnum \<times> jsnum" where
  "requestedWindow p dur parentWidth =
     (let nominal = Math_round (js_mul (js_mul (ToNumber dur) (minPxPerSec p)) (pixelRatio p))
      in if fillParent p \<and> (\<not> scrollParent p \<or> js_lt nominal parentWidth)
         then (parentWidth, Fin 0, parentWidth)
         else (nominal, Fin 0, Math_max parentWidth nominal))"

text \<open>One \<open>drawPeaks\<close> call per range, in the order of the ranges.\<close>

definition drawCalls :: "peaks \<Rightarrow> jsnum \<Rightarrow> (jsnum \<times> jsnum) list \<Rightarrow> action list" where
  "drawCalls pks width ranges =
     map (\<lambda>r. DrawerDrawPeaks (Stored pks) width (Number (fst r)) (Number (snd r))) ranges"


text \<open>A cache that holds no painted range for the width \<open>totalWidth\<close>: it is empty, or
  the width recorded last differs, so that the next call discards what it holds.\<close>

definition nothingPainted :: "RangeCache \<Rightarrow> jsnum \<Rightarrow> bool" where
  "nothingPainted c totalWidth = (painted c = [] \<or> widthDiffers (recordedWidth c) totalWidth)"

text \<open>
  An instance as \<open>WaveSurfer.create\<close> leaves it, for a host element 300 pixels wide
  at pixel ratio 1, created with \<open>partialRender\<close> and \<open>scrollParent\<close> switched on;
  the same instance holding a clip of 30 seconds, played up to second 4; and the
  instance after \<open>empty()\<close>, position and duration 0.
\<close>

definition sample_options :: options where
  "sample_options =
     \<lparr> opt_backgroundColor = None, opt_container = Some (Some Element),
       opt_fillParent = None, opt_maxCanvasWidth = None, opt_minPxPerSec = None,
       opt_partialRender = Some True, opt_pixelRatio = None, opt_renderer = None,
       opt_rtl = None, opt_scrollParent = Some True, opt_vertical = None \<rparr>"

definition sample_drawer :: drawer where
  "sample_drawer = \<lparr> getWidth = Fin 300 \<rparr>"

definition sample_instance :: "RangeCache wavesurfer" where
  "sample_instance =
     \<lparr> params = \<lparr> backgroundColor = None, container = Some Element, fillParent = True,
                  maxCanvasWidth = Number (Fin 4000), minPxPerSec = Fin 20,
                  partialRender = True, pixelRatio = Fin 1, renderer = Function,
                  rtl = False, scrollParent = True, vertical = False \<rparr>,
       drawer = Some sample_drawer,
       peakCache = Some newRangeCache,
       peaks = Missing, duration = Undefined, curPosition = Undefined,
       peakMax = Undefined, isReady = False,
       trace = [FireEvent ''plugins-registered'', NewDrawer, DrawerInit,
                FireEvent ''drawer-created''] \<rparr>"

definition sample_peaks :: peaks where
  "sample_peaks = Samples [Fin 0, Fin 100, Fin 45, Fin 11, Fin 202, Fin 68, Fin 240]"

definition loaded_instance :: "RangeCache wavesurfer" where
  "loaded_instance =
     sample_instance\<lparr>peaks := sample_peaks, duration := Number (Fin 30),
                     curPosition := Number (Fin 4), peakMax := Number (Fin 255),
                     isReady := True\<rparr>"

definition full_repaint_instance :: "RangeCache wavesurfer" where
  "full_repaint_instance =
     loaded_instance\<lparr>params := (params loaded_instance)\<lparr>partialRender := False\<rparr>,
                     peakCache := None\<rparr>"

definition emptied_instance :: "RangeCache wavesurfer" where
  "emptied_instance = sample_instance\<lparr>curPosition := Number (Fin 0), duration := Number (Fin 0)\<rparr>"

section \<open>Basic facts\<close>

lemma js_lt_irrefl: "\<not> js_lt a a"
  by (cases a) simp_all

lemma js_add_zero_left: "js_add (Fin 0) a = a"
  by (cases a) simp_all

lemma js_eq_imp_eq: "js_eq a b \<Longrightarrow> a = b"
  by (cases a; cases b) simp_all

lemma js_eq_refl: "a \<noteq> NaN \<Longrightarrow> js_eq a a"
  by (cases a) simp_all

lemma js_lt_not_NaN: "js_lt a b \<Longrightarrow> a \<noteq> NaN \<and> b \<noteq> NaN"
  by (cases a; cases b) simp_all

lemma js_lt_not_le: "js_lt a b \<Longrightarrow> \<not> js_le b a"
  by (cases a; cases b) (auto simp: js_le_def)

lemma js_add_finite_not_NaN: "isFinite a \<Longrightarrow> b \<noteq> NaN \<Longrightarrow> js_add a b \<noteq> NaN"
  by (cases a; cases b) simp_all

lemma floor_rat_numeral_divide:
  "\<lfloor>(numeral a / numeral b :: rat)\<rfloor> = numeral a div numeral b"
  using floor_divide_of_int_eq [of "numeral a" "numeral b", where ?'a = rat] by simp

lemma andThen_None: "andThen (None, s) f = f s"
  by (simp add: andThen_def)

lemma andThen_Some: "andThen (Some e, s) f = (Some e, s)"
  by (simp add: andThen_def)

lemma onDrawer_Some: "drawer s = Some d \<Longrightarrow> onDrawer call s = (None, emit (call d) s)"
  by (simp add: onDrawer_def)

lemma onDrawer_None: "drawer s = None \<Longrightarrow> onDrawer call s = (Some TypeError, s)"
  by (simp add: onDrawer_def)

section \<open>The constructor\<close>

text \<open>The checks of the constructor, in their order.\<close>

lemma WaveSurfer_cases:
  fixes dpr p
  defines "q \<equiv> assign (defaultParams dpr) p"
  shows "fst (WaveSurfer dpr p :: 'c outcome) =
     (if container q = None then Some (Error ''Container element not found'')
      else if js_le (ToNumber (maxCanvasWidth q)) (Fin 1)
        then Some (Error ''maxCanvasWidth must be greater than 1'')
      else if js_eq (js_mod (ToNumber (maxCanvasWidth q)) (Fin 2)) (Fin 1)
        then Some (Error ''maxCanvasWidth must be an even number'')
      else if typeof (renderer q) \<noteq> ''function''
        then Some (Error ''Renderer parameter is invalid'')
      else None)"
  unfolding q_def
  by (simp add: WaveSurfer_def Let_def setBackgroundColor_def emit_def split: option.splits)

lemma WaveSurfer_no_drawer:
  "drawer (snd (WaveSurfer dpr p :: 'c outcome)) = None
   \<and> peakCache (snd (WaveSurfer dpr p :: 'c outcome)) = None
   \<and> NewDrawer \<notin> set (trace (snd (WaveSurfer dpr p :: 'c outcome)))"
  by (simp add: WaveSurfer_def Let_def setBackgroundColor_def emit_def split: option.splits)

lemma WaveSurfer_params:
  "params (snd (WaveSurfer dpr p :: 'c outcome)) = assign (defaultParams dpr) p
   \<or> (\<exists>color. params (snd (WaveSurfer dpr p :: 'c outcome))
                = (assign (defaultParams dpr) p)\<lparr>backgroundColor := Some color\<rparr>)"
  by (simp add: WaveSurfer_def Let_def setBackgroundColor_def emit_def split: option.splits)

lemma create_fst: "fst (create dpr p new_cache d :: 'c outcome) = fst (WaveSurfer dpr p :: 'c outcome)"
  by (cases "WaveSurfer dpr p :: 'c outcome") (simp add: create_def andThen_def split: option.splits)

lemma create_peakCache:
  assumes "fst (create dpr p new_cache d :: 'c outcome) = None"
  shows "peakCache (snd (create dpr p new_cache d :: 'c outcome)) =
           (if partialRender (assign (defaultParams dpr) p) then Some new_cache else None)
         \<and> drawer (snd (create dpr p new_cache d :: 'c outcome)) = Some d"
proof -
  obtain e s where r: "(WaveSurfer dpr p :: 'c outcome) = (e, s)"
    by (cases "WaveSurfer dpr p :: 'c outcome")
  have e: "e = None"
    using assms r by (cases e) (simp_all add: create_def andThen_def)
  have "peakCache s = None"
    using WaveSurfer_no_drawer [of dpr p, where ?'c = 'c] r by simp
  moreover have "partialRender (params s) = partialRender (assign (defaultParams dpr) p)"
    using WaveSurfer_params [of dpr p, where ?'c = 'c] r by auto
  ultimately show ?thesis
    using r e
    by (simp add: create_def andThen_def init_def createPeakCache_def createDrawer_def
        registerPlugins_def fireEvent_def emit_def)
qed

lemma sample_instance_created:
  "create (Fin 1) sample_options newRangeCache sample_drawer = (None, sample_instance)"
  by (simp add: create_def WaveSurfer_def init_def createPeakCache_def createDrawer_def
      registerPlugins_def fireEvent_def emit_def andThen_def assign_def defaultParams_def
      sample_options_def sample_instance_def js_le_def js_trunc_def Let_def)

text \<open>On whole numbers the two tests on \<open>maxCanvasWidth\<close> reject exactly the numbers
  that are not even or not above 1.\<close>

lemma js_trunc_half: "js_trunc (of_int n / 2) = (if 0 \<le> n then n div 2 else - ((- n) div 2))"
proof -
  have a: "\<lfloor>(of_int n :: rat) / 2\<rfloor> = n div 2"
    using floor_divide_of_int_eq [of n 2, where ?'a = rat] by simp
  have b: "\<lceil>(of_int n :: rat) / 2\<rceil> = - ((- n) div 2)"
    using floor_divide_of_int_eq [of "- n" 2, where ?'a = rat] by (simp add: ceiling_def)
  show ?thesis
    by (simp add: js_trunc_def a b zero_le_divide_iff)
qed

lemma odd_above_one_mod:
  assumes "1 < n"
  shows "js_eq (js_mod (Fin (of_int n)) (Fin 2)) (Fin 1) \<longleftrightarrow> odd n"
proof -
  have "(of_int n :: rat) - 2 * of_int (n div 2) = of_int (n mod 2)"
    by (simp add: minus_mult_div_eq_mod [symmetric] algebra_simps)
  then show ?thesis using assms
    by (auto simp: js_trunc_half elim: oddE)
qed

lemma maxCanvasWidth_whole_numbers:
  assumes "container (assign (defaultParams dpr) p) \<noteq> None"
    and "typeof (renderer (assign (defaultParams dpr) p)) = ''function''"
    and "maxCanvasWidth (assign (defaultParams dpr) p) = Number (Fin (of_int n))"
  shows "fst (WaveSurfer dpr p :: 'c outcome) \<noteq> None \<longleftrightarrow> \<not> (1 < n \<and> even n)"
proof (cases "1 < n")
  case True
  then show ?thesis using assms odd_above_one_mod [OF True]
    by (simp add: WaveSurfer_cases js_le_def)
next
  case False
  then show ?thesis using assms
    by (simp add: WaveSurfer_cases js_le_def)
qed

lemma maxCanvasWidth_101_rejected:
  "fst (WaveSurfer (Fin 1) (sample_options\<lparr>opt_maxCanvasWidth := Some (Number (Fin 101))\<rparr>)
        :: RangeCache outcome) = Some (Error ''maxCanvasWidth must be an even number'')"
  by (simp add: WaveSurfer_cases assign_def defaultParams_def sample_options_def js_le_def
      js_trunc_def floor_rat_numeral_divide)

lemma maxCanvasWidth_default_accepted:
  "fst (WaveSurfer (Fin 1) sample_options :: RangeCache outcome) = None"
  by (simp add: WaveSurfer_cases assign_def defaultParams_def sample_options_def js_le_def
      js_trunc_def floor_rat_numeral_divide)

text \<open>
  Claim C5. The constructor is required to throw whenever \<open>maxCanvasWidth\<close> is not an
  even number greater than 1. For the width 2.5, which is not an even number, both
  tests pass (\<open>2.5 <= 1\<close> is false and \<open>2.5 % 2\<close> is 0.5, not 1) and the constructor
  returns an instance.
\<close>

theorem maxCanvasWidth_fraction_accepted:
  "fst (WaveSurfer (Fin 1) (sample_options\<lparr>opt_maxCanvasWidth := Some (Number (Fin (5 / 2)))\<rparr>)
        :: RangeCache outcome) = None"
  by (simp add: WaveSurfer_cases assign_def defaultParams_def sample_options_def js_le_def
      js_trunc_def floor_rat_numeral_divide)

text \<open>
  Claim C7. With a renderer parameter that is not a function the constructor
  throws, and no drawer has been created by then; the error is
  \<open>Renderer parameter is invalid\<close> whenever the earlier checks (container found,
  \<open>maxCanvasWidth\<close> accepted) pass. With a function for a renderer this error is
  never thrown.
\<close>

theorem invalid_renderer_raises:
  fixes dpr p
  defines "q \<equiv> assign (defaultParams dpr) p"
    and "r \<equiv> (WaveSurfer dpr p :: 'c outcome)"
  shows "(typeof (renderer q) \<noteq> ''function'' \<longrightarrow>
            fst r \<noteq> None \<and> drawer (snd r) = None \<and> NewDrawer \<notin> set (trace (snd r)))
       \<and> (typeof (renderer q) \<noteq> ''function'' \<and> container q \<noteq> None
            \<and> \<not> js_le (ToNumber (maxCanvasWidth q)) (Fin 1)
            \<and> \<not> js_eq (js_mod (ToNumber (maxCanvasWidth q)) (Fin 2)) (Fin 1) \<longrightarrow>
            fst r = Some (Error ''Renderer parameter is invalid''))
       \<and> (typeof (renderer q) = ''function'' \<longrightarrow>
            fst r \<noteq> Some (Error ''Renderer parameter is invalid''))"
  unfolding q_def r_def
  by (simp add: WaveSurfer_cases WaveSurfer_no_drawer)

theorem invalid_renderer_raises_witness:
  "fst (WaveSurfer (Fin 1) (sample_options\<lparr>opt_renderer := Some (Str ''MultiCanvas'')\<rparr>)
         :: RangeCache outcome) = Some (Error ''Renderer parameter is invalid'')
   \<and> drawer (snd (WaveSurfer (Fin 1) (sample_options\<lparr>opt_renderer := Some (Str ''MultiCanvas'')\<rparr>)
         :: RangeCache outcome)) = None
   \<and> fst (WaveSurfer (Fin 1) (sample_options\<lparr>opt_renderer := Some Function\<rparr>)
         :: RangeCache outcome) \<noteq> Some (Error ''Renderer parameter is invalid'')"
proof -
  let ?bad = "sample_options\<lparr>opt_renderer := Some (Str ''MultiCanvas'')\<rparr>"
  let ?good = "sample_options\<lparr>opt_renderer := Some Function\<rparr>"
  have b: "typeof (renderer (assign (defaultParams (Fin 1)) ?bad)) \<noteq> ''function''"
    "container (assign (defaultParams (Fin 1)) ?bad) \<noteq> None"
    "\<not> js_le (ToNumber (maxCanvasWidth (assign (defaultParams (Fin 1)) ?bad))) (Fin 1)"
    "\<not> js_eq (js_mod (ToNumber (maxCanvasWidth (assign (defaultParams (Fin 1)) ?bad))) (Fin 2)) (Fin 1)"
    by (simp_all add: assign_def defaultParams_def sample_options_def js_le_def js_trunc_def
        floor_rat_numeral_divide)
  have g: "typeof (renderer (assign (defaultParams (Fin 1)) ?good)) = ''function''"
    by (simp add: assign_def defaultParams_def sample_options_def)
  from invalid_renderer_raises [of "Fin 1" ?bad, where ?'c = RangeCache] b
  have 1: "fst (WaveSurfer (Fin 1) ?bad :: RangeCache outcome)
             = Some (Error ''Renderer parameter is invalid'')
           \<and> drawer (snd (WaveSurfer (Fin 1) ?bad :: RangeCache outcome)) = None"
    by blast
  from invalid_renderer_raises [of "Fin 1" ?good, where ?'c = RangeCache] g
  have 2: "fst (WaveSurfer (Fin 1) ?good :: RangeCache outcome)
             \<noteq> Some (Error ''Renderer parameter is invalid'')"
    by blast
  from 1 2 show ?thesis by simp
qed

section \<open>Seeking\<close>

lemma seekTo_invalid:
  "\<not> betweenZeroAndOne progress \<Longrightarrow> seekTo progress s = (Some (Error seekTo_message), s)"
  by (cases progress rule: betweenZeroAndOne.cases) (auto simp: seekTo_def js_gt_def)

lemma seekTo_valid:
  assumes "0 \<le> x" "x \<le> 1"
  shows "seekTo (Prim (Number (Fin x))) s =
           andThen (onDrawer (\<lambda>d. DrawerProgress (Fin x))
                      (fireEvent ''interaction'' s
                         \<lparr>params := (params s)\<lparr>scrollParent := False\<rparr>,
                          curPosition := Number (js_mul (Fin x) (ToNumber (duration s)))\<rparr>))
             (\<lambda>s'. (None, fireEvent ''seek''
                             (s'\<lparr>params := (params s')\<lparr>scrollParent := scrollParent (params s)\<rparr>\<rparr>)))"
  using assms
  by (simp add: seekTo_def js_gt_def Let_def fireEvent_def emit_def getDuration_def not_less)

lemma seekTo_valid_drawer:
  assumes "0 \<le> x" "x \<le> 1" "drawer s = Some d"
  shows "seekTo (Prim (Number (Fin x))) s =
           (None, s\<lparr>curPosition := Number (js_mul (Fin x) (ToNumber (duration s))),
                    trace := trace s @ [FireEvent ''interaction'', DrawerProgress (Fin x),
                                        FireEvent ''seek'']\<rparr>)"
  using assms
  by (simp add: seekTo_valid onDrawer_def andThen_def fireEvent_def emit_def)

lemma seekTo_valid_no_drawer:
  assumes "0 \<le> x" "x \<le> 1" "drawer s = None"
  shows "fst (seekTo (Prim (Number (Fin x))) s) = Some TypeError"
  using assms
  by (simp add: seekTo_valid onDrawer_def andThen_def fireEvent_def emit_def)

lemma betweenZeroAndOne_cases:
  "betweenZeroAndOne progress \<Longrightarrow> \<exists>x. progress = Prim (Number (Fin x)) \<and> 0 \<le> x \<and> x \<le> 1"
  by (cases progress rule: betweenZeroAndOne.cases) simp_all

text \<open>
  Claim C8. \<open>seekTo(progress)\<close> throws its own error exactly when \<open>progress\<close> is not a
  finite number between 0 and 1 inclusive, and then leaves the whole instance as
  it was (position, trace of drawer calls and \<open>params.scrollParent\<close> included). On
  an initialised instance (the drawer exists) it throws nothing else, and a
  successful call leaves \<open>params\<close>, hence \<open>scrollParent\<close>, as before the call, while
  the position becomes \<open>progress * duration\<close> and the drawer is told the progress.
\<close>

theorem seekTo_raises_iff_not_in_unit_interval:
  "(fst (seekTo progress s) = Some (Error seekTo_message) \<longleftrightarrow> \<not> betweenZeroAndOne progress)
   \<and> (\<not> betweenZeroAndOne progress \<longrightarrow> snd (seekTo progress s) = s)
   \<and> (drawer s \<noteq> None \<longrightarrow>
        (fst (seekTo progress s) \<noteq> None \<longleftrightarrow> \<not> betweenZeroAndOne progress))
   \<and> (drawer s \<noteq> None \<and> betweenZeroAndOne progress \<longrightarrow>
        params (snd (seekTo progress s)) = params s
        \<and> (\<exists>p. progress = Prim (Number p)
              \<and> curPosition (snd (seekTo progress s)) = Number (js_mul p (ToNumber (duration s)))
              \<and> trace (snd (seekTo progress s)) =
                  trace s @ [FireEvent ''interaction'', DrawerProgress p, FireEvent ''seek'']))"
proof (cases "betweenZeroAndOne progress")
  case False
  then show ?thesis by (simp add: seekTo_invalid)
next
  case True
  then obtain x where x: "progress = Prim (Number (Fin x))" "0 \<le> x" "x \<le> 1"
    using betweenZeroAndOne_cases by blast
  show ?thesis
  proof (cases "drawer s")
    case None
    with x True show ?thesis by (simp add: seekTo_valid_no_drawer)
  next
    case (Some d)
    with x True show ?thesis by (simp add: seekTo_valid_drawer)
  qed
qed

theorem seekTo_raises_iff_not_in_unit_interval_witness:
  "seekTo (Prim (Number (Fin 2))) sample_instance = (Some (Error seekTo_message), sample_instance)
   \<and> seekTo (Str ''0.5'') sample_instance = (Some (Error seekTo_message), sample_instance)
   \<and> fst (seekTo (Prim (Number (Fin (1 / 2)))) sample_instance) = None
   \<and> scrollParent (params (snd (seekTo (Prim (Number (Fin (1 / 2)))) sample_instance)))"
proof -
  have d: "drawer sample_instance \<noteq> None" and sp: "scrollParent (params sample_instance)"
    by (simp_all add: sample_instance_def)
  have v: "betweenZeroAndOne (Prim (Number (Fin (1 / 2))))"
    and n2: "\<not> betweenZeroAndOne (Prim (Number (Fin 2)))"
    and ns: "\<not> betweenZeroAndOne (Str ''0.5'')"
    by simp_all
  from seekTo_raises_iff_not_in_unit_interval [of "Prim (Number (Fin 2))" sample_instance] n2
  have a: "seekTo (Prim (Number (Fin 2))) sample_instance = (Some (Error seekTo_message), sample_instance)"
    by (simp add: prod_eq_iff)
  from seekTo_raises_iff_not_in_unit_interval [of "Str ''0.5''" sample_instance] ns
  have b: "seekTo (Str ''0.5'') sample_instance = (Some (Error seekTo_message), sample_instance)"
    by (simp add: prod_eq_iff)
  from seekTo_raises_iff_not_in_unit_interval [of "Prim (Number (Fin (1 / 2)))" sample_instance] d v sp
  have c: "fst (seekTo (Prim (Number (Fin (1 / 2)))) sample_instance) = None
           \<and> scrollParent (params (snd (seekTo (Prim (Number (Fin (1 / 2)))) sample_instance)))"
    by simp
  from a b c show ?thesis by simp
qed

section \<open>Skipping\<close>

lemma skip_duration_nonzero:
  "ToNumber (js_or d (Number (Fin 1))) \<noteq> NaN \<and> ToNumber (js_or d (Number (Fin 1))) \<noteq> Fin 0"
  by (cases d) (auto simp: js_or_def)

lemma or_zero_not_NaN: "ToNumber (js_or v (Number (Fin 0))) \<noteq> NaN"
  by (cases v) (auto simp: js_or_def)

lemma clamp_fraction:
  assumes "d \<noteq> 0" "t \<noteq> NaN"
  shows "\<exists>x. js_div (Math_max (Fin 0) (Math_min (Fin d) t)) (Fin d) = Fin x \<and> 0 \<le> x \<and> x \<le> 1"
  using assms
  by (cases t) (auto simp: Math_max_def Math_min_def divide_le_eq_1 zero_le_divide_iff)

lemma skip_fraction_in_unit_interval:
  assumes D: "isFinite (ToNumber (js_or (duration s) (Number (Fin 1))))"
    and C: "isFinite (ToNumber (js_or (curPosition s) (Number (Fin 0))))"
  shows "\<exists>x. skip_fraction offset s = Fin x \<and> 0 \<le> x \<and> x \<le> 1"
proof -
  obtain d where d: "ToNumber (js_or (duration s) (Number (Fin 1))) = Fin d"
    using D by (cases "ToNumber (js_or (duration s) (Number (Fin 1)))") simp_all
  have d0: "d \<noteq> 0" using skip_duration_nonzero [of "duration s"] d by simp
  have t: "js_add (ToNumber (js_or (curPosition s) (Number (Fin 0))))
                  (ToNumber (js_or offset (Number (Fin 0)))) \<noteq> NaN"
    using C or_zero_not_NaN by (rule js_add_finite_not_NaN)
  show ?thesis
    unfolding skip_fraction_def skip_position_def Let_def getCurrentTime_def d
    using clamp_fraction [OF d0 t] .
qed

text \<open>
  Claim C9, amended. \<open>skip(offset)\<close> seeks to the fraction \<open>position / D\<close>, where
  \<open>position\<close> is \<open>max(0, min(D, current + offset))\<close> and \<open>D\<close> is the stored duration, or
  1 when that is falsy. When \<open>D\<close> is finite and the current position is finite or
  falsy, then for every offset the fraction is a number between 0 and 1, \<open>seekTo\<close>
  does not throw, and the stored position becomes the fraction times the stored
  duration.
\<close>

theorem skip_seeks_inside_unit_interval:
  assumes "drawer s = Some d"
    and "isFinite (ToNumber (js_or (duration s) (Number (Fin 1))))"
    and "isFinite (ToNumber (js_or (curPosition s) (Number (Fin 0))))"
  shows "(\<exists>x. skip_fraction offset s = Fin x \<and> 0 \<le> x \<and> x \<le> 1)
         \<and> skip offset s =
             (None, s\<lparr>curPosition := Number (js_mul (skip_fraction offset s) (ToNumber (duration s))),
                      trace := trace s @ [FireEvent ''interaction'',
                                          DrawerProgress (skip_fraction offset s),
                                          FireEvent ''seek'',
                                          DrawerRecenter (skip_fraction offset s)]\<rparr>)"
proof -
  obtain x where x: "skip_fraction offset s = Fin x" "0 \<le> x" "x \<le> 1"
    using skip_fraction_in_unit_interval [OF assms(2,3)] by blast
  have "skip offset s = seekAndCenter (Fin x) s"
    using x(1) by (simp add: skip_def)
  also have "\<dots> = (None, s\<lparr>curPosition := Number (js_mul (Fin x) (ToNumber (duration s))),
                      trace := trace s @ [FireEvent ''interaction'', DrawerProgress (Fin x),
                                          FireEvent ''seek'', DrawerRecenter (Fin x)]\<rparr>)"
    using x(2,3) assms(1)
    by (simp add: seekAndCenter_def seekTo_valid_drawer andThen_def onDrawer_def emit_def)
  finally show ?thesis using x by simp
qed

lemma loaded_instance_skip_fraction:
  "skip_fraction (Number (Fin 3)) loaded_instance = Fin (7 / 30)"
  by (simp add: skip_fraction_def skip_position_def Let_def js_or_def getCurrentTime_def
      loaded_instance_def sample_instance_def Math_max_def Math_min_def)

theorem skip_seeks_inside_unit_interval_witness:
  "fst (skip (Number (Fin 3)) loaded_instance) = None
   \<and> curPosition (snd (skip (Number (Fin 3)) loaded_instance)) = Number (Fin 7)"
proof -
  have h: "drawer loaded_instance = Some sample_drawer"
    "isFinite (ToNumber (js_or (duration loaded_instance) (Number (Fin 1))))"
    "isFinite (ToNumber (js_or (curPosition loaded_instance) (Number (Fin 0))))"
    by (simp_all add: loaded_instance_def sample_instance_def js_or_def)
  have dur: "duration loaded_instance = Number (Fin 30)"
    by (simp add: loaded_instance_def)
  from skip_seeks_inside_unit_interval [OF h, of "Number (Fin 3)"]
  show ?thesis
    by (simp add: loaded_instance_skip_fraction dur)
qed

text \<open>
  Claim C9 as stated fails twice. After \<open>empty()\<close> the duration is 0, so \<open>D\<close> is 1 and
  \<open>skip(0.5)\<close> computes the position 0.5, yet the stored position becomes
  \<open>0.5 * 0 = 0\<close>. With an infinite duration, \<open>skip(Infinity)\<close> seeks to
  \<open>Infinity / Infinity\<close>, which is NaN, and \<open>seekTo\<close> throws its range error.
\<close>

theorem skip_position_counterexample:
  "skip_position (Number (Fin (1 / 2))) emptied_instance = Fin (1 / 2)
   \<and> fst (skip (Number (Fin (1 / 2))) emptied_instance) = None
   \<and> curPosition (snd (skip (Number (Fin (1 / 2))) emptied_instance)) = Number (Fin 0)
   \<and> fst (skip (Number PInf) (sample_instance\<lparr>duration := Number PInf\<rparr>))
       = Some (Error seekTo_message)"
  by (simp add: skip_def skip_fraction_def skip_position_def seekAndCenter_def seekTo_def
      Let_def js_or_def getCurrentTime_def getDuration_def emptied_instance_def
      sample_instance_def Math_max_def Math_min_def andThen_def onDrawer_def emit_def
      fireEvent_def js_gt_def)

section \<open>Played fraction\<close>

text \<open>
  Claim C10. \<open>getPlayedPercents()\<close> answers the quotient of the current time by the
  duration, except that it answers 0 when that quotient is 0 or NaN; it never
  answers NaN, and in the empty state (position 0, duration 0) it answers 0.
\<close>

theorem getPlayedPercents_quotient_or_zero:
  "getPlayedPercents s =
     (let q = js_div (ToNumber (curPosition s)) (ToNumber (duration s))
      in if q = Fin 0 \<or> q = NaN then Number (Fin 0) else Number q)
   \<and> getPlayedPercents s \<noteq> Number NaN
   \<and> (curPosition s = Number (Fin 0) \<and> duration s = Number (Fin 0) \<longrightarrow>
        getPlayedPercents s = Number (Fin 0))"
  by (auto simp: getPlayedPercents_def getCurrentTime_def js_or_def Let_def)

theorem getPlayedPercents_quotient_or_zero_witness:
  "getPlayedPercents emptied_instance = Number (Fin 0)
   \<and> getPlayedPercents loaded_instance = Number (Fin (2 / 15))"
proof -
  have e: "curPosition emptied_instance = Number (Fin 0) \<and> duration emptied_instance = Number (Fin 0)"
    by (simp add: emptied_instance_def)
  have l: "curPosition loaded_instance = Number (Fin 4)" "duration loaded_instance = Number (Fin 30)"
    by (simp_all add: loaded_instance_def)
  from getPlayedPercents_quotient_or_zero [of emptied_instance] e
  have 1: "getPlayedPercents emptied_instance = Number (Fin 0)" by blast
  from getPlayedPercents_quotient_or_zero [of loaded_instance]
  have 2: "getPlayedPercents loaded_instance = Number (Fin (2 / 15))" by (simp add: l)
  from 1 2 show ?thesis by simp
qed

section \<open>Drawing\<close>

lemma drawRanges_trace:
  "drawer s = Some d \<Longrightarrow>
     drawRanges W rs s = (None, s\<lparr>trace := trace s @ drawCalls (peaks s) W rs\<rparr>)"
proof (induction rs arbitrary: s)
  case Nil
  then show ?case by (simp add: drawCalls_def)
next
  case (Cons r rs)
  let ?s' = "emit (DrawerDrawPeaks (Stored (peaks s)) W (Number (fst r)) (Number (snd r))) s"
  have d': "drawer ?s' = Some d" and p': "peaks ?s' = peaks s"
    using Cons.prems by (simp_all add: emit_def)
  have "drawRanges W (r # rs) s = drawRanges W rs ?s'"
    using Cons.prems by (simp add: onDrawer_Some andThen_None)
  also have "\<dots> = (None, ?s'\<lparr>trace := trace ?s' @ drawCalls (peaks ?s') W rs\<rparr>)"
    using Cons.IH [OF d'] .
  finally show ?case by (simp add: emit_def drawCalls_def)
qed

text \<open>\<open>drawBuffer\<close> against the window of the specification.\<close>

lemma drawBuffer_unfold:
  assumes "drawer s = Some d"
  shows "drawBuffer add s =
     (case requestedWindow (params s) (duration s) (getWidth d) of (W, S, E) \<Rightarrow>
        if partialRender (params s)
        then (case peakCache s of
                None \<Rightarrow> (Some TypeError, s)
              | Some c \<Rightarrow>
                  (None, s\<lparr>peakCache := Some (snd (add c W S E)),
                           trace := trace s @ drawCalls (peaks s) W (fst (add c W S E))
                                      @ [FireEvent ''redraw'']\<rparr>))
        else (None, s\<lparr>trace := trace s @ [DrawerDrawPeaks (Stored (peaks s)) W (Number S) (Number E),
                                           FireEvent ''redraw'']\<rparr>))"
proof -
  have dr: "\<And>W rs c'. drawRanges W rs (s\<lparr>peakCache := Some c'\<rparr>)
               = (None, s\<lparr>peakCache := Some c', trace := trace s @ drawCalls (peaks s) W rs\<rparr>)"
    using drawRanges_trace [of "s\<lparr>peakCache := Some c'\<rparr>" d for c'] assms by simp
  show ?thesis
  proof (cases "fillParent (params s) \<and>
                  (\<not> scrollParent (params s) \<or> js_lt (nominalWidth s) (getWidth d))")
    case True
    then show ?thesis
      using assms
      by (simp add: drawBuffer_def requestedWindow_def nominalWidth_def Let_def
          onDrawer_Some andThen_def fireEvent_def emit_def dr split: option.splits prod.splits)
  next
    case False
    then show ?thesis
      using assms
      by (auto simp add: drawBuffer_def requestedWindow_def nominalWidth_def Let_def
          js_add_zero_left onDrawer_Some andThen_def fireEvent_def emit_def dr
          split: option.splits prod.splits)
  qed
qed

lemma loaded_instance_window:
  "requestedWindow (params loaded_instance) (duration loaded_instance) (getWidth sample_drawer)
     = (Fin 600, Fin 0, Fin 600)"
  "requestedWindow (params full_repaint_instance) (duration full_repaint_instance)
      (getWidth sample_drawer) = (Fin 600, Fin 0, Fin 600)"
  by (simp_all add: requestedWindow_def loaded_instance_def full_repaint_instance_def
      sample_instance_def sample_drawer_def Math_max_def floor_rat_numeral_divide Let_def)

text \<open>
  Claim C1. On an initialised instance, with \<open>partialRender\<close> off \<open>drawBuffer\<close> calls
  \<open>drawPeaks\<close> exactly once, with the full range, and neither reads nor changes a
  peak cache (whatever \<open>addRangeToPeakCache\<close> is); \<open>create\<close> then leaves
  \<open>peakCache\<close> null. With \<open>partialRender\<close> on and a peak cache present it calls
  \<open>addRangeToPeakCache(width, start, end)\<close> once and then \<open>drawPeaks\<close> once per
  answered range, with that range's bounds, in the order answered.
\<close>

theorem drawBuffer_draws_full_range_or_new_ranges:
  assumes "drawer s = Some d"
  shows "(\<not> partialRender (params s) \<longrightarrow>
            (case requestedWindow (params s) (duration s) (getWidth d) of (width, start, end) \<Rightarrow>
               drawBuffer addRangeToPeakCache s =
                 (None, s\<lparr>trace := trace s @
                            [DrawerDrawPeaks (Stored (peaks s)) width (Number start) (Number end),
                             FireEvent ''redraw'']\<rparr>)))
       \<and> (partialRender (params s) \<and> peakCache s = Some c \<longrightarrow>
            (case requestedWindow (params s) (duration s) (getWidth d) of (width, start, end) \<Rightarrow>
               drawBuffer addRangeToPeakCache s =
                 (None, s\<lparr>peakCache := Some (snd (addRangeToPeakCache c width start end)),
                          trace := trace s @
                            map (\<lambda>r. DrawerDrawPeaks (Stored (peaks s)) width
                                       (Number (fst r)) (Number (snd r)))
                                (fst (addRangeToPeakCache c width start end))
                            @ [FireEvent ''redraw'']\<rparr>)))
       \<and> (fst (create dpr p new_cache d :: 'c outcome) = None
            \<and> \<not> partialRender (assign (defaultParams dpr) p) \<longrightarrow>
            peakCache (snd (create dpr p new_cache d :: 'c outcome)) = None)"
  using create_peakCache [of dpr p new_cache d]
  by (simp add: drawBuffer_unfold [OF assms] drawCalls_def split: prod.splits)

theorem drawBuffer_draws_full_range_or_new_ranges_witness:
  "drawBuffer addRange full_repaint_instance =
     (None, full_repaint_instance\<lparr>trace := trace full_repaint_instance @
        [DrawerDrawPeaks (Stored sample_peaks) (Fin 600) (Number (Fin 0)) (Number (Fin 600)),
         FireEvent ''redraw'']\<rparr>)
   \<and> drawBuffer (\<lambda>c w s e. ([(Fin 0, Fin 10), (Fin 20, Fin 30)], c)) loaded_instance =
     (None, loaded_instance\<lparr>trace := trace loaded_instance @
        [DrawerDrawPeaks (Stored sample_peaks) (Fin 600) (Number (Fin 0)) (Number (Fin 10)),
         DrawerDrawPeaks (Stored sample_peaks) (Fin 600) (Number (Fin 20)) (Number (Fin 30)),
         FireEvent ''redraw'']\<rparr>)
   \<and> peakCache (snd (create (Fin 1) (sample_options\<lparr>opt_partialRender := None\<rparr>)
                        newRangeCache sample_drawer)) = None"
proof -
  let ?o = "sample_options\<lparr>opt_partialRender := None\<rparr>"
  have f: "drawer full_repaint_instance = Some sample_drawer"
    "\<not> partialRender (params full_repaint_instance)"
    "peaks full_repaint_instance = sample_peaks"
    by (simp_all add: full_repaint_instance_def loaded_instance_def sample_instance_def)
  have l: "drawer loaded_instance = Some sample_drawer"
    "partialRender (params loaded_instance)"
    "peakCache loaded_instance = Some newRangeCache"
    "peaks loaded_instance = sample_peaks"
    by (simp_all add: loaded_instance_def sample_instance_def)
  have c: "fst (create (Fin 1) ?o newRangeCache sample_drawer) = None"
    "\<not> partialRender (assign (defaultParams (Fin 1)) ?o)"
    by (simp_all add: create_fst WaveSurfer_cases assign_def defaultParams_def
        sample_options_def js_le_def js_trunc_def floor_rat_numeral_divide)
  from drawBuffer_draws_full_range_or_new_ranges
         [OF f(1), of addRange newRangeCache "Fin 1" ?o newRangeCache] f(2,3) c
  have 1: "drawBuffer addRange full_repaint_instance =
     (None, full_repaint_instance\<lparr>trace := trace full_repaint_instance @
        [DrawerDrawPeaks (Stored sample_peaks) (Fin 600) (Number (Fin 0)) (Number (Fin 600)),
         FireEvent ''redraw'']\<rparr>)
     \<and> peakCache (snd (create (Fin 1) ?o newRangeCache sample_drawer)) = None"
    by (simp add: loaded_instance_window)
  have same: "loaded_instance\<lparr>peakCache := Some newRangeCache\<rparr> = loaded_instance"
    by (simp add: loaded_instance_def sample_instance_def)
  from drawBuffer_draws_full_range_or_new_ranges
         [OF l(1), of "\<lambda>c w s e. ([(Fin 0, Fin 10), (Fin 20, Fin 30)], c)" newRangeCache
            "Fin 1" ?o newRangeCache] l(2,3,4)
  have 2: "drawBuffer (\<lambda>c w s e. ([(Fin 0, Fin 10), (Fin 20, Fin 30)], c)) loaded_instance =
     (None, loaded_instance\<lparr>trace := trace loaded_instance @
        [DrawerDrawPeaks (Stored sample_peaks) (Fin 600) (Number (Fin 0)) (Number (Fin 10)),
         DrawerDrawPeaks (Stored sample_peaks) (Fin 600) (Number (Fin 20)) (Number (Fin 30)),
         FireEvent ''redraw'']\<rparr>)"
    by (simp add: loaded_instance_window same)
  from 1 2 show ?thesis by simp
qed



section \<open>Loading\<close>









section \<open>The range cache\<close>

lemma addRange_fresh:
  assumes "nothingPainted c W" "js_lt s e" "W \<noteq> NaN"
  shows "addRange c W s e = ([(s, e)], \<lparr> painted = [(s, e)], recordedWidth = Some W \<rparr>)"
proof -
  have ne: "\<not> js_eq s e"
    using assms(2) js_lt_irrefl js_eq_imp_eq by blast
  show ?thesis
  proof (cases "widthDiffers (recordedWidth c) W")
    case True
    then show ?thesis using ne assms(2) by (simp add: addRange_def)
  next
    case False
    then obtain w where w: "recordedWidth c = Some w" "js_eq w W"
      by (auto simp: widthDiffers_def split: option.splits)
    have "painted c = []" using assms(1) False by (simp add: nothingPainted_def)
    moreover have "w = W" using w(2) by (rule js_eq_imp_eq)
    ultimately have "c = \<lparr> painted = [], recordedWidth = Some W \<rparr>" using w(1) by simp
    then show ?thesis using ne assms(2) False by (simp add: addRange_def)
  qed
qed

lemma addRange_again:
  assumes "js_lt s e" "W \<noteq> NaN"
  shows "addRange \<lparr> painted = [(s, e)], recordedWidth = Some W \<rparr> W s e
           = ([], \<lparr> painted = [(s, e)], recordedWidth = Some W \<rparr>)"
proof -
  have ne: "\<not> js_eq s e"
    using assms(1) js_lt_irrefl js_eq_imp_eq by blast
  have nd: "\<not> widthDiffers (Some W) W"
    using assms(2) by (simp add: widthDiffers_def js_eq_refl)
  have nle: "\<not> js_le e s" using assms(1) by (rule js_lt_not_le)
  have le: "js_le s e" using assms(1) by (simp add: js_le_def)
  have mm: "Math_min s s = s" "Math_max e e = e"
    using js_lt_not_NaN [OF assms(1)] by (simp_all add: Math_min_def Math_max_def js_lt_irrefl)
  show ?thesis
    using ne nd nle le mm by (simp add: addRange_def js_lt_irrefl js_ge_def)
qed

lemma addRange_records_width:
  "recordedWidth (snd (addRange c W s e)) = Some W"
  by (auto simp: addRange_def Let_def widthDiffers_def split: option.splits dest!: js_eq_imp_eq)

text \<open>
  Claim C3, amended. For a width \<open>W\<close> and a range with \<open>s < e\<close>, on a cache that holds
  no painted range for \<open>W\<close>, two consecutive calls \<open>addRange(W, s, e)\<close> answer the full
  range \<open>[s, e)\<close> as the single new sub-range the first time and nothing the second
  time. Consequently the loop of \<open>drawBuffer\<close> over the second answer calls
  \<open>drawPeaks\<close> not once, and a second \<open>drawBuffer\<close> under \<open>partialRender\<close>, with the same
  width and range, adds nothing to the trace but the \<open>redraw\<close> event.
\<close>

theorem addRange_twice:
  assumes "nothingPainted c W" "js_lt s e" "W \<noteq> NaN"
  shows "fst (addRange c W s e) = [(s, e)]
       \<and> fst (addRange (snd (addRange c W s e)) W s e) = []
       \<and> drawRanges W (fst (addRange (snd (addRange c W s e)) W s e)) st = (None, st)
       \<and> (partialRender (params st) \<and> drawer st = Some d \<and> peakCache st = Some c
            \<and> requestedWindow (params st) (duration st) (getWidth d) = (W, s, e) \<longrightarrow>
            (\<exists>st1 st2. drawBuffer addRange st = (None, st1)
               \<and> trace st1 = trace st @ [DrawerDrawPeaks (Stored (peaks st)) W (Number s) (Number e),
                                          FireEvent ''redraw'']
               \<and> drawBuffer addRange st1 = (None, st2)
               \<and> trace st2 = trace st1 @ [FireEvent ''redraw'']))"
proof -
  let ?c1 = "\<lparr> painted = [(s, e)], recordedWidth = Some W \<rparr>"
  have first: "addRange c W s e = ([(s, e)], ?c1)"
    using assms by (rule addRange_fresh)
  have second: "addRange ?c1 W s e = ([], ?c1)"
    using assms(2,3) by (rule addRange_again)
  have redraw: "\<exists>st1 st2. drawBuffer addRange st = (None, st1)
               \<and> trace st1 = trace st @ [DrawerDrawPeaks (Stored (peaks st)) W (Number s) (Number e),
                                          FireEvent ''redraw'']
               \<and> drawBuffer addRange st1 = (None, st2)
               \<and> trace st2 = trace st1 @ [FireEvent ''redraw'']"
    if h: "partialRender (params st)" "drawer st = Some d" "peakCache st = Some c"
          "requestedWindow (params st) (duration st) (getWidth d) = (W, s, e)"
  proof -
    let ?st1 = "st\<lparr>peakCache := Some ?c1,
                   trace := trace st @ drawCalls (peaks st) W [(s, e)] @ [FireEvent ''redraw'']\<rparr>"
    have 1: "drawBuffer addRange st = (None, ?st1)"
      using h first by (simp add: drawBuffer_unfold [OF h(2)])
    have d1: "drawer ?st1 = Some d" using h(2) by simp
    have 2: "drawBuffer addRange ?st1
               = (None, ?st1\<lparr>peakCache := Some ?c1,
                              trace := trace ?st1 @ drawCalls (peaks ?st1) W [] @ [FireEvent ''redraw'']\<rparr>)"
      unfolding drawBuffer_unfold [OF d1] using h second by simp
    show ?thesis
      using 1 2 by (simp add: drawCalls_def)
  qed
  show ?thesis
    using first second redraw by simp
qed

theorem addRange_twice_witness:
  "fst (addRange newRangeCache (Fin 20) (Fin 0) (Fin 20)) = [(Fin 0, Fin 20)]
   \<and> fst (addRange (snd (addRange newRangeCache (Fin 20) (Fin 0) (Fin 20))) (Fin 20) (Fin 0) (Fin 20)) = []
   \<and> (\<exists>st1 st2. drawBuffer addRange loaded_instance = (None, st1)
         \<and> drawBuffer addRange st1 = (None, st2)
         \<and> trace st2 = trace st1 @ [FireEvent ''redraw''])"
proof -
  have a: "nothingPainted newRangeCache (Fin 20)" "js_lt (Fin 0) (Fin 20)" "Fin 20 \<noteq> NaN"
    by (simp_all add: nothingPainted_def newRangeCache_def)
  have b: "nothingPainted newRangeCache (Fin 600)" "js_lt (Fin 0) (Fin 600)" "Fin 600 \<noteq> NaN"
    by (simp_all add: nothingPainted_def newRangeCache_def)
  have l: "partialRender (params loaded_instance) \<and> drawer loaded_instance = Some sample_drawer
           \<and> peakCache loaded_instance = Some newRangeCache"
    by (simp add: loaded_instance_def sample_instance_def)
  from addRange_twice [OF a, of loaded_instance sample_drawer]
  have 1: "fst (addRange newRangeCache (Fin 20) (Fin 0) (Fin 20)) = [(Fin 0, Fin 20)]
     \<and> fst (addRange (snd (addRange newRangeCache (Fin 20) (Fin 0) (Fin 20))) (Fin 20) (Fin 0) (Fin 20)) = []"
    by simp
  from addRange_twice [OF b, of loaded_instance sample_drawer] l loaded_instance_window(1)
  have 2: "\<exists>st1 st2. drawBuffer addRange loaded_instance = (None, st1)
         \<and> drawBuffer addRange st1 = (None, st2)
         \<and> trace st2 = trace st1 @ [FireEvent ''redraw'']"
    by blast
  from 1 2 show ?thesis by simp
qed

text \<open>
  Claim C3 as stated, for every range with \<open>s <= e\<close>, fails on the degenerate range:
  the first call \<open>addRange(20, 5, 5)\<close> on a new cache answers nothing, not \<open>[5, 5)\<close>.
\<close>

theorem addRange_twice_counterexample:
  "fst (addRange newRangeCache (Fin 20) (Fin 5) (Fin 5)) = []
   \<and> fst (addRange newRangeCache (Fin 20) (Fin 5) (Fin 5)) \<noteq> [(Fin 5, Fin 5)]"
  by (simp add: addRange_def newRangeCache_def widthDiffers_def)

text \<open>
  Claim C4. For two widths \<open>W1\<close> and \<open>W2\<close> that differ, \<open>addRange(W1, 0, 10)\<close> followed
  by \<open>addRange(W2, 0, 10)\<close> answers \<open>[0, 10)\<close> in full the second time, whatever the
  cache held before; and whenever the width differs from the one recorded on the
  previous call, the painted set is discarded before the range is inserted, so
  that a range \<open>[s, e)\<close> with \<open>s < e\<close> is answered in full and is all the cache holds
  afterwards.
\<close>

theorem addRange_other_width:
  "(W1 \<noteq> W2 \<longrightarrow>
      fst (addRange (snd (addRange c W1 (Fin 0) (Fin 10))) W2 (Fin 0) (Fin 10)) = [(Fin 0, Fin 10)])
   \<and> (widthDiffers (recordedWidth c) W \<and> js_lt s e \<longrightarrow>
        addRange c W s e = ([(s, e)], \<lparr> painted = [(s, e)], recordedWidth = Some W \<rparr>))"
proof -
  have a: "addRange c' W' s' e' = ([(s', e')], \<lparr> painted = [(s', e')], recordedWidth = Some W' \<rparr>)"
    if "widthDiffers (recordedWidth c') W'" "js_lt s' e'" for c' W' s' e'
  proof -
    have "\<not> js_eq s' e'"
      using that(2) js_lt_irrefl js_eq_imp_eq by blast
    then show ?thesis using that by (simp add: addRange_def)
  qed
  have b: "W1 \<noteq> W2 \<Longrightarrow> widthDiffers (recordedWidth (snd (addRange c W1 (Fin 0) (Fin 10)))) W2"
    using addRange_records_width [of c W1 "Fin 0" "Fin 10"]
    by (auto simp: widthDiffers_def dest!: js_eq_imp_eq)
  have c: "js_lt (Fin 0) (Fin 10)" by simp
  show ?thesis using a [OF b c] a by simp
qed

theorem addRange_other_width_witness:
  "fst (addRange (snd (addRange newRangeCache (Fin 20) (Fin 0) (Fin 10))) (Fin 40) (Fin 0) (Fin 10))
     = [(Fin 0, Fin 10)]
   \<and> fst (addRange (snd (addRange newRangeCache (Fin 20) (Fin 0) (Fin 10))) (Fin 20) (Fin 0) (Fin 10))
     = []"
proof -
  have ne: "Fin 20 \<noteq> Fin 40" by simp
  from addRange_other_width [of "Fin 20" "Fin 40" newRangeCache "Fin 20" "Fin 0" "Fin 10"] ne
  have 1: "fst (addRange (snd (addRange newRangeCache (Fin 20) (Fin 0) (Fin 10))) (Fin 40) (Fin 0) (Fin 10))
     = [(Fin 0, Fin 10)]"
    by blast
  have d: "widthDiffers (recordedWidth newRangeCache) (Fin 20) \<and> js_lt (Fin 0) (Fin 10)"
    by (simp add: widthDiffers_def newRangeCache_def)
  from addRange_other_width [of "Fin 20" "Fin 40" newRangeCache "Fin 20" "Fin 0" "Fin 10"] d
  have "addRange newRangeCache (Fin 20) (Fin 0) (Fin 10)
          = ([(Fin 0, Fin 10)], \<lparr> painted = [(Fin 0, Fin 10)], recordedWidth = Some (Fin 20) \<rparr>)"
    by blast
  then have 2: "fst (addRange (snd (addRange newRangeCache (Fin 20) (Fin 0) (Fin 10))) (Fin 20) (Fin 0) (Fin 10))
     = []"
    by (simp add: addRange_again)
  from 1 2 show ?thesis by simp
qed

end
